theory Spec2Isabelle
  imports Complex_Main
begin

section \<open>The measurement widget of rjsf-shadcn\<close>

text \<open>
  A shallow embedding of \<^verbatim>\<open>src/medical/measurement-widget.tsx\<close>: the static table
  \<^verbatim>\<open>MEASUREMENT_CONFIGS\<close>, the selection of the configuration, and the closures of the
  component \<^verbatim>\<open>MeasurementWidget\<close> (\<^verbatim>\<open>parsedValue\<close>, \<^verbatim>\<open>validationState\<close>,
  \<^verbatim>\<open>convertValue\<close>, \<^verbatim>\<open>handleValueChange\<close>, \<^verbatim>\<open>handleUnitChange\<close>), each taking the
  variables it closes over as arguments.

  Numbers. A JavaScript number is an IEEE double. The model takes the finite numbers to be
  the real numbers, so the arithmetic of the model is exact where the program rounds to 53
  bits; \<^verbatim>\<open>NaN\<close> is a separate value, because the code tests for it; the infinities are
  not modelled. The concrete inputs of the claims below are chosen so that the double
  computation and the exact one give the same result. Where a property bounds a result for
  every magnitude, the rounding of the double arithmetic matters, and the conversion is
  taken with that rounding written out (\<open>convertValue_double\<close> below); the two differ at
  decimal ties, of which 145 cm in m is an example below.
\<close>

subsection \<open>JavaScript values\<close>

datatype jsnumber = Num real | NaN

text \<open>Truthiness of a number: \<^verbatim>\<open>0\<close> and \<^verbatim>\<open>NaN\<close> are falsy.\<close>

fun truthy_number :: "jsnumber \<Rightarrow> bool" where
  "truthy_number (Num r) = (r \<noteq> 0)"
| "truthy_number NaN = False"

fun isNaN :: "jsnumber \<Rightarrow> bool" where
  "isNaN NaN = True"
| "isNaN (Num r) = False"

text \<open>
  A property of an object: not there (reading it gives \<^verbatim>\<open>undefined\<close>), \<^verbatim>\<open>null\<close>, or a
  value.
\<close>

datatype 'a property = Absent | NullProp | Prop 'a

text \<open>
  The value the form engine hands to the widget (\<^verbatim>\<open>props.value\<close>, of type \<^verbatim>\<open>any\<close>).
  An object is given by its two properties \<^verbatim>\<open>value\<close> and \<^verbatim>\<open>unit\<close>, which, where they
  are there, have the types that the interface \<^verbatim>\<open>MeasurementValue\<close> declares; an object
  of another kind, such as an array, is an object without the two properties.
\<close>

datatype rawFormValue =
    Undefined
  | Null
  | Boolean bool
  | Number jsnumber
  | String string
  | Function
  | Object "jsnumber property" "string property"

fun truthy :: "rawFormValue \<Rightarrow> bool" where
  "truthy Undefined = False"
| "truthy Null = False"
| "truthy (Boolean b) = b"
| "truthy (Number n) = truthy_number n"
| "truthy (String s) = (s \<noteq> [])"
| "truthy Function = True"
| "truthy (Object pv pu) = True"

fun typeof :: "rawFormValue \<Rightarrow> string" where
  "typeof Undefined = ''undefined''"
| "typeof Null = ''object''"
| "typeof (Boolean b) = ''boolean''"
| "typeof (Number n) = ''number''"
| "typeof (String s) = ''string''"
| "typeof Function = ''function''"
| "typeof (Object pv pu) = ''object''"

text \<open>\<^verbatim>\<open>(value as any).value\<close> and \<^verbatim>\<open>(value as any).unit\<close>.\<close>

fun get_value :: "rawFormValue \<Rightarrow> jsnumber property" where
  "get_value (Object pv pu) = pv"
| "get_value _ = Absent"

fun get_unit :: "rawFormValue \<Rightarrow> string property" where
  "get_unit (Object pv pu) = pu"
| "get_unit _ = Absent"

text \<open>\<^verbatim>\<open>x || null\<close> on a number property and \<^verbatim>\<open>x || d\<close> on a string property.\<close>

fun or_null :: "jsnumber property \<Rightarrow> jsnumber option" where
  "or_null (Prop n) = (if truthy_number n then Some n else None)"
| "or_null _ = None"

fun or_default :: "string property \<Rightarrow> string \<Rightarrow> string" where
  "or_default (Prop s) d = (if s \<noteq> [] then s else d)"
| "or_default _ d = d"

fun as_number :: "rawFormValue \<Rightarrow> jsnumber option" where
  "as_number (Number n) = Some n"
| "as_number _ = None"

subsection \<open>The data model\<close>

text \<open>
  \<^verbatim>\<open>interface MeasurementValue { value: number | null; unit: string }\<close>; \<^verbatim>\<open>null\<close> is
  \<open>None\<close>.
\<close>

record MeasurementValue =
  mvalue :: "jsnumber option"
  unit :: string

text \<open>
  \<^verbatim>\<open>conversion?: number | ((val: number) => number)\<close>: a tagged union of a factor and a
  function; the optional field is an option.
\<close>

datatype conversion = Linear real | NonLinear "real \<Rightarrow> real"

record unitOption =
  uvalue :: string
  label :: string
  conversion :: "conversion option"

record range =
  rmin :: real
  rmax :: real

record ranges =
  normal :: "range option"
  critical :: "range option"

record MeasurementConfig =
  type :: string
  defaultUnit :: string
  units :: "unitOption list"
  ranges :: "ranges option"
  precision :: "nat option"

datatype status = Normal | Warning | Critical

subsection \<open>The table of configurations\<close>

definition weight :: MeasurementConfig where
  "weight = \<lparr>type = ''weight'', defaultUnit = ''kg'',
     units = [\<lparr>uvalue = ''kg'', label = ''kg'', conversion = None\<rparr>,
              \<lparr>uvalue = ''lb'', label = ''lbs'', conversion = Some (Linear 2.20462)\<rparr>,
              \<lparr>uvalue = ''g'', label = ''g'', conversion = Some (Linear 1000)\<rparr>],
     ranges = Some \<lparr>normal = Some \<lparr>rmin = 40, rmax = 200\<rparr>,
                     critical = Some \<lparr>rmin = 30, rmax = 300\<rparr>\<rparr>,
     precision = Some 1\<rparr>"

definition height :: MeasurementConfig where
  "height = \<lparr>type = ''height'', defaultUnit = ''cm'',
     units = [\<lparr>uvalue = ''cm'', label = ''cm'', conversion = None\<rparr>,
              \<lparr>uvalue = ''in'', label = ''inches'', conversion = Some (Linear 0.393701)\<rparr>,
              \<lparr>uvalue = ''m'', label = ''m'', conversion = Some (Linear 0.01)\<rparr>],
     ranges = Some \<lparr>normal = Some \<lparr>rmin = 140, rmax = 220\<rparr>,
                     critical = Some \<lparr>rmin = 100, rmax = 250\<rparr>\<rparr>,
     precision = Some 1\<rparr>"

definition heart_rate :: MeasurementConfig where
  "heart_rate = \<lparr>type = ''heart_rate'', defaultUnit = ''bpm'',
     units = [\<lparr>uvalue = ''bpm'', label = ''BPM'', conversion = None\<rparr>],
     ranges = Some \<lparr>normal = Some \<lparr>rmin = 60, rmax = 100\<rparr>,
                     critical = Some \<lparr>rmin = 40, rmax = 200\<rparr>\<rparr>,
     precision = Some 0\<rparr>"

text \<open>The two labels of the temperature units are written without the degree sign.\<close>

definition temperature :: MeasurementConfig where
  "temperature = \<lparr>type = ''temperature'', defaultUnit = ''celsius'',
     units = [\<lparr>uvalue = ''celsius'', label = ''C'', conversion = None\<rparr>,
              \<lparr>uvalue = ''fahrenheit'', label = ''F'',
               conversion = Some (NonLinear (\<lambda>c. (c * 9 / 5) + 32))\<rparr>],
     ranges = Some \<lparr>normal = Some \<lparr>rmin = 36.1, rmax = 37.2\<rparr>,
                     critical = Some \<lparr>rmin = 35, rmax = 42\<rparr>\<rparr>,
     precision = Some 1\<rparr>"

definition blood_glucose :: MeasurementConfig where
  "blood_glucose = \<lparr>type = ''blood_glucose'', defaultUnit = ''mg/dL'',
     units = [\<lparr>uvalue = ''mg/dL'', label = ''mg/dL'', conversion = None\<rparr>,
              \<lparr>uvalue = ''mmol/L'', label = ''mmol/L'', conversion = Some (Linear 0.0555)\<rparr>],
     ranges = Some \<lparr>normal = Some \<lparr>rmin = 70, rmax = 140\<rparr>,
                     critical = Some \<lparr>rmin = 50, rmax = 400\<rparr>\<rparr>,
     precision = Some 0\<rparr>"

definition MEASUREMENT_CONFIGS :: "(string \<times> MeasurementConfig) list" where
  "MEASUREMENT_CONFIGS =
     [(''weight'', weight), (''height'', height), (''heart_rate'', heart_rate),
      (''temperature'', temperature), (''blood_glucose'', blood_glucose)]"

subsection \<open>Selecting the configuration\<close>

text \<open>
  \<^verbatim>\<open>schema['x-measurement-type'] || uiSchema['ui:measurementType'] || 'weight'\<close>, the two
  entries being strings where they are there (the empty string is falsy).
\<close>

definition measurementType :: "string option \<Rightarrow> string option \<Rightarrow> string" where
  "measurementType sx ux =
     (case sx of
        Some s \<Rightarrow> if s \<noteq> [] then s
                  else (case ux of Some u \<Rightarrow> if u \<noteq> [] then u else ''weight''
                                 | None \<Rightarrow> ''weight'')
      | None \<Rightarrow> (case ux of Some u \<Rightarrow> if u \<noteq> [] then u else ''weight''
                           | None \<Rightarrow> ''weight''))"

text \<open>
  \<^verbatim>\<open>MEASUREMENT_CONFIGS\<close> is an object literal, so \<^verbatim>\<open>MEASUREMENT_CONFIGS[k]\<close> reads the
  property \<^verbatim>\<open>k\<close> of the object or, where the object has no such property of its own, of
  its prototype \<^verbatim>\<open>Object.prototype\<close>. The properties of \<^verbatim>\<open>Object.prototype\<close> are functions
  (and, for \<^verbatim>\<open>__proto__\<close>, the prototype object itself): all truthy, none of them with a
  property \<^verbatim>\<open>units\<close>.
\<close>

definition Object_prototype :: "string list" where
  "Object_prototype =
     [''constructor'', ''hasOwnProperty'', ''isPrototypeOf'', ''propertyIsEnumerable'',
      ''toLocaleString'', ''toString'', ''valueOf'', ''__proto__'',
      ''__defineGetter__'', ''__defineSetter__'', ''__lookupGetter__'', ''__lookupSetter__'']"

datatype configValue = Config MeasurementConfig | Inherited string

definition lookup_config :: "string \<Rightarrow> configValue option" where
  "lookup_config k =
     (case map_of MEASUREMENT_CONFIGS k of
        Some c \<Rightarrow> Some (Config c)
      | None \<Rightarrow> if k \<in> set Object_prototype then Some (Inherited k) else None)"

text \<open>\<^verbatim>\<open>MEASUREMENT_CONFIGS[measurementType] || MEASUREMENT_CONFIGS.weight\<close>.\<close>

definition config :: "string \<Rightarrow> configValue" where
  "config t = (case lookup_config t of Some c \<Rightarrow> c | None \<Rightarrow> Config weight)"

subsection \<open>Parsing the form value\<close>

definition parsedValue :: "MeasurementConfig \<Rightarrow> rawFormValue \<Rightarrow> MeasurementValue" where
  "parsedValue cfg v =
     (if \<not> truthy v then \<lparr>mvalue = None, unit = defaultUnit cfg\<rparr>
      else if typeof v = ''object'' \<and> v \<noteq> Null then
        \<lparr>mvalue = or_null (get_value v), unit = or_default (get_unit v) (defaultUnit cfg)\<rparr>
      else if typeof v = ''number'' then
        \<lparr>mvalue = as_number v, unit = defaultUnit cfg\<rparr>
      else \<lparr>mvalue = None, unit = defaultUnit cfg\<rparr>)"

text \<open>
  The widget hands a \<^verbatim>\<open>MeasurementValue\<close> object to \<^verbatim>\<open>onChange\<close> as it is; seen as a form
  value, it is the object with these two properties.
\<close>

definition serialize :: "MeasurementValue \<Rightarrow> rawFormValue" where
  "serialize m =
     Object (case mvalue m of None \<Rightarrow> NullProp | Some n \<Rightarrow> Prop n) (Prop (unit m))"

subsection \<open>Classifying against the ranges\<close>

definition outside :: "range option \<Rightarrow> real \<Rightarrow> bool" where
  "outside r x = (case r of None \<Rightarrow> False | Some b \<Rightarrow> x < rmin b \<or> x > rmax b)"

definition validationState :: "MeasurementConfig \<Rightarrow> MeasurementValue \<Rightarrow> status option" where
  "validationState cfg cur =
     (case mvalue cur of
        None \<Rightarrow> None
      | Some NaN \<Rightarrow> None
      | Some (Num val) \<Rightarrow>
          if val = 0 then None
          else (case ranges cfg of
                  None \<Rightarrow> None
                | Some rs \<Rightarrow>
                    let baseValue =
                          (case find (\<lambda>u. uvalue u = unit cur) (units cfg) of
                             Some uc \<Rightarrow>
                               (case conversion uc of
                                  Some (Linear f) \<Rightarrow> if f \<noteq> 0 then val / f else val
                                | _ \<Rightarrow> val)
                           | None \<Rightarrow> val)
                    in if outside (critical rs) baseValue then Some Critical
                       else if outside (normal rs) baseValue then Some Warning
                       else Some Normal))"

subsection \<open>Converting between units\<close>

text \<open>
  \<^verbatim>\<open>Number(x.toFixed(d))\<close>. By ECMA-262, \<^verbatim>\<open>toFixed\<close> works on the absolute value and puts
  the sign in front; for a value of at least \<open>10\<^sup>2\<^sup>1\<close> it prints the number as it is;
  otherwise it prints \<open>n / 10\<^sup>d\<close> for the integer \<open>n\<close> that makes \<open>n / 10\<^sup>d\<close>
  closest to the value, the larger \<open>n\<close> of two. With more than 100 digits \<^verbatim>\<open>toFixed\<close>
  throws a \<^verbatim>\<open>RangeError\<close>: the precisions of the table are 0 and 1, and the theorems
  below about an arbitrary configuration assume at most 100 digits.
\<close>

definition toFixed :: "nat \<Rightarrow> real \<Rightarrow> real" where
  "toFixed d x =
     (if 10 ^ 21 \<le> \<bar>x\<bar> then x
      else if x < 0 then - (of_int \<lfloor>(- x) * 10 ^ d + 1 / 2\<rfloor> / 10 ^ d)
      else of_int \<lfloor>x * 10 ^ d + 1 / 2\<rfloor> / 10 ^ d)"

text \<open>\<^verbatim>\<open>config.precision || 1\<close>: an absent precision and the precision 0 both give 1.\<close>

definition precision_or_1 :: "MeasurementConfig \<Rightarrow> nat" where
  "precision_or_1 cfg = (case precision cfg of None \<Rightarrow> 1 | Some p \<Rightarrow> if p \<noteq> 0 then p else 1)"

definition convertValue :: "MeasurementConfig \<Rightarrow> real \<Rightarrow> string \<Rightarrow> string \<Rightarrow> real" where
  "convertValue cfg val fromUnit toUnit =
     (if fromUnit = toUnit then val
      else
        (case (find (\<lambda>u. uvalue u = fromUnit) (units cfg),
               find (\<lambda>u. uvalue u = toUnit) (units cfg)) of
           (Some fromUnitConfig, Some toUnitConfig) \<Rightarrow>
             let baseValue =
                   (case conversion fromUnitConfig of
                      Some (NonLinear g) \<Rightarrow> val
                    | Some (Linear f) \<Rightarrow> if f \<noteq> 0 then val / f else val
                    | None \<Rightarrow> val);
                 targetValue =
                   (case conversion toUnitConfig of
                      Some (NonLinear g) \<Rightarrow> g baseValue
                    | Some (Linear f) \<Rightarrow> if f \<noteq> 0 then baseValue * f else baseValue
                    | None \<Rightarrow> baseValue)
             in toFixed (precision_or_1 cfg) targetValue
         | _ \<Rightarrow> val))"

subsection \<open>Converting between units, on doubles\<close>

text \<open>
  The same conversion with the rounding of the double arithmetic written out. The rounding
  \<open>rnd\<close> of a real number to a double is a parameter. The factor of a unit is the double
  \<open>rnd f\<close> that the decimal literal \<open>f\<close> of the table denotes; the division and the
  multiplication give the rounded quotient and product; \<^verbatim>\<open>toFixed\<close> rounds the exact value
  of the double to digits, and \<^verbatim>\<open>Number\<close> gives the double of the printed decimal. The
  magnitude is a double as it comes, and the function of a non-linear unit is applied as
  the table has it. The two steps are the two blocks of the source, \<^emph>\<open>convert to base unit
  first\<close> and \<^emph>\<open>convert from base unit to target unit\<close>.
\<close>

definition toBase :: "(real \<Rightarrow> real) \<Rightarrow> unitOption \<Rightarrow> real \<Rightarrow> real" where
  "toBase rnd fromUnitConfig val =
     (case conversion fromUnitConfig of
        Some (NonLinear g) \<Rightarrow> val
      | Some (Linear f) \<Rightarrow> if rnd f \<noteq> 0 then rnd (val / rnd f) else val
      | None \<Rightarrow> val)"

definition fromBase :: "(real \<Rightarrow> real) \<Rightarrow> unitOption \<Rightarrow> real \<Rightarrow> real" where
  "fromBase rnd toUnitConfig baseValue =
     (case conversion toUnitConfig of
        Some (NonLinear g) \<Rightarrow> g baseValue
      | Some (Linear f) \<Rightarrow> if rnd f \<noteq> 0 then rnd (baseValue * rnd f) else baseValue
      | None \<Rightarrow> baseValue)"

definition convertValue_double ::
  "(real \<Rightarrow> real) \<Rightarrow> MeasurementConfig \<Rightarrow> real \<Rightarrow> string \<Rightarrow> string \<Rightarrow> real" where
  "convertValue_double rnd cfg val fromUnit toUnit =
     (if fromUnit = toUnit then val
      else
        (case (find (\<lambda>u. uvalue u = fromUnit) (units cfg),
               find (\<lambda>u. uvalue u = toUnit) (units cfg)) of
           (Some fromUnitConfig, Some toUnitConfig) \<Rightarrow>
             rnd (toFixed (precision_or_1 cfg)
                    (fromBase rnd toUnitConfig (toBase rnd fromUnitConfig val)))
         | _ \<Rightarrow> val))"

text \<open>
  What the properties below ask of the rounding: up to \<open>2\<^sup>1\<^sup>0\<^sup>0\<^sup>0\<close>, far below the overflow
  of a double, an error of at most the value times \<open>2\<^sup>-\<^sup>5\<^sup>2\<close> plus \<open>2\<^sup>-\<^sup>1\<^sup>0\<^sup>7\<^sup>4\<close>. The
  rounding to nearest of IEEE 754 is within half of that (the value times \<open>2\<^sup>-\<^sup>5\<^sup>3\<close> for a
  normal result, \<open>2\<^sup>-\<^sup>1\<^sup>0\<^sup>7\<^sup>5\<close> for a subnormal one); the margin covers a \<^verbatim>\<open>Number\<close> that
  reads only the first 20 significant digits of a decimal, as ECMA-262 allows.
\<close>

definition double_rounding :: "(real \<Rightarrow> real) \<Rightarrow> bool" where
  "double_rounding rnd =
     (\<forall>v. \<bar>v\<bar> \<le> 2 ^ 1000 \<longrightarrow> \<bar>rnd v - v\<bar> \<le> \<bar>v\<bar> / 2 ^ 52 + 1 / 2 ^ 1074)"

text \<open>
  The rounding of IEEE 754 binary64 to nearest, ties to even, without the overflow: 53
  significant bits counted from the binade of the value, and the multiples of \<open>2\<^sup>-\<^sup>1\<^sup>0\<^sup>7\<^sup>4\<close>
  below \<open>2\<^sup>-\<^sup>1\<^sup>0\<^sup>2\<^sup>2\<close>.
\<close>

definition rne :: "real \<Rightarrow> int" where
  "rne q =
     (let n = \<lfloor>q\<rfloor>; r = q - of_int n
      in if r < 1 / 2 then n else if 1 / 2 < r then n + 1 else if even n then n else n + 1)"

definition double :: "real \<Rightarrow> real" where
  "double v =
     (if v = 0 then 0
      else let e = max \<lfloor>log 2 \<bar>v\<bar>\<rfloor> (- 1022); u = 2 powr (of_int e - 52)
           in of_int (rne (v / u)) * u)"

subsection \<open>The component\<close>

text \<open>
  \<^verbatim>\<open>handleValueChange\<close>, given \<^verbatim>\<open>parseFloat(newValue)\<close>, and \<^verbatim>\<open>handleUnitChange\<close>. Each
  computes \<^verbatim>\<open>updatedValue\<close>, which the code both stores (\<^verbatim>\<open>setCurrentValue\<close>) and hands
  to \<^verbatim>\<open>onChange\<close>.
\<close>

definition handleValueChange :: "MeasurementValue \<Rightarrow> jsnumber \<Rightarrow> MeasurementValue" where
  "handleValueChange currentValue numValue =
     \<lparr>mvalue = (if isNaN numValue then None else Some numValue), unit = unit currentValue\<rparr>"

definition handleUnitChange ::
  "MeasurementConfig \<Rightarrow> MeasurementValue \<Rightarrow> string \<Rightarrow> MeasurementValue" where
  "handleUnitChange cfg currentValue newUnit =
     \<lparr>mvalue =
        (case mvalue currentValue of
           Some (Num v) \<Rightarrow> Some (Num (convertValue cfg v (unit currentValue) newUnit))
         | other \<Rightarrow> other),
      unit = newUnit\<rparr>"

text \<open>
  What a render shows. The state of the component is the cell of
  \<^verbatim>\<open>useState<MeasurementValue>(parsedValue)\<close>: React's \<^verbatim>\<open>useState\<close> takes its argument as
  the state at the first render of the component, when the cell is empty, and returns the
  stored state, whatever the argument, at every later one. With a configuration that is
  not a \<^verbatim>\<open>MeasurementConfig\<close> the hooks read \<^verbatim>\<open>undefined\<close> properties without failing, and
  the first expression that fails is \<^verbatim>\<open>config.units.length\<close> in the returned markup:
  reading \<^verbatim>\<open>length\<close> of \<^verbatim>\<open>undefined\<close> throws a \<^verbatim>\<open>TypeError\<close>.
\<close>

datatype error = TypeError

record view =
  shown :: MeasurementValue
  unitSelect :: bool
  badge :: "status option"

definition render :: "configValue \<Rightarrow> MeasurementValue option \<Rightarrow> rawFormValue \<Rightarrow> error + view" where
  "render c cell v =
     (case c of
        Inherited k \<Rightarrow> Inl TypeError
      | Config cfg \<Rightarrow>
          let currentValue = (case cell of None \<Rightarrow> parsedValue cfg v | Some s \<Rightarrow> s)
          in Inr \<lparr>shown = currentValue,
                  unitSelect = (length (units cfg) > 1),
                  badge = validationState cfg currentValue\<rparr>)"

text \<open>
  The events of a mounted component: a render with the form engine's value of the moment,
  an edit of the magnitude (carrying \<^verbatim>\<open>parseFloat\<close> of the text) and a change of the unit.
  The state after the first render is the parsed value. A later render leaves in the cell
  the \<^verbatim>\<open>currentValue\<close> that it read from it; the two handlers store \<^verbatim>\<open>updatedValue\<close>.
\<close>

datatype event = Render rawFormValue | ValueChange jsnumber | UnitChange string

definition mount :: "MeasurementConfig \<Rightarrow> rawFormValue \<Rightarrow> MeasurementValue" where
  "mount cfg v = parsedValue cfg v"

fun step :: "MeasurementConfig \<Rightarrow> MeasurementValue \<Rightarrow> event \<Rightarrow> MeasurementValue" where
  "step cfg currentValue (Render v) =
     (case render (Config cfg) (Some currentValue) v of
        Inr w \<Rightarrow> shown w
      | Inl e \<Rightarrow> currentValue)"
| "step cfg currentValue (ValueChange n) = handleValueChange currentValue n"
| "step cfg currentValue (UnitChange u) = handleUnitChange cfg currentValue u"

fun run :: "MeasurementConfig \<Rightarrow> MeasurementValue \<Rightarrow> event list \<Rightarrow> MeasurementValue" where
  "run cfg currentValue [] = currentValue"
| "run cfg currentValue (e # es) = run cfg (step cfg currentValue e) es"

text \<open>
  What an event hands to the form engine through \<^verbatim>\<open>onChange\<close>: a render calls nothing,
  and each handler calls \<^verbatim>\<open>onChange(updatedValue)\<close> with the value that it stores.
\<close>

fun onChange :: "MeasurementConfig \<Rightarrow> MeasurementValue \<Rightarrow> event \<Rightarrow> MeasurementValue option" where
  "onChange cfg currentValue (Render v) = None"
| "onChange cfg currentValue (ValueChange n) = Some (handleValueChange currentValue n)"
| "onChange cfg currentValue (UnitChange u) = Some (handleUnitChange cfg currentValue u)"

text \<open>The events that come from the form engine, as opposed to the user's edits.\<close>

fun external :: "event \<Rightarrow> bool" where
  "external (Render v) = True"
| "external (ValueChange n) = False"
| "external (UnitChange u) = False"

section \<open>Properties\<close>

subsection \<open>Rounding\<close>

lemma round_half: "\<bar>of_int \<lfloor>y + 1 / 2\<rfloor> - y\<bar> \<le> 1 / (2::real)"
  by linarith

lemma round_scaled:
  fixes x :: real
  shows "\<bar>of_int \<lfloor>x * 10 ^ d + 1 / 2\<rfloor> / 10 ^ d - x\<bar> \<le> 1 / (2 * 10 ^ d)"
proof -
  have "of_int \<lfloor>x * 10 ^ d + 1 / 2\<rfloor> / 10 ^ d - x
          = (of_int \<lfloor>x * 10 ^ d + 1 / 2\<rfloor> - x * 10 ^ d) / 10 ^ d"
    by (simp add: diff_divide_distrib)
  then have "\<bar>of_int \<lfloor>x * 10 ^ d + 1 / 2\<rfloor> / 10 ^ d - x\<bar>
          = \<bar>of_int \<lfloor>x * 10 ^ d + 1 / 2\<rfloor> - x * 10 ^ d\<bar> / 10 ^ d"
    by simp
  also have "\<dots> \<le> (1 / 2) / 10 ^ d"
    by (rule divide_right_mono [OF round_half]) simp
  finally show ?thesis by simp
qed

text \<open>Rounding to \<open>d\<close> digits moves a value by at most half a unit of the last digit.\<close>

lemma toFixed_error: "\<bar>toFixed d x - x\<bar> \<le> 1 / (2 * 10 ^ d)"
proof (cases "10 ^ 21 \<le> \<bar>x\<bar>")
  case True
  then show ?thesis by (simp add: toFixed_def)
next
  case big: False
  show ?thesis
  proof (cases "x < 0")
    case True
    have "\<bar>toFixed d x - x\<bar> = \<bar>of_int \<lfloor>(- x) * 10 ^ d + 1 / 2\<rfloor> / 10 ^ d - (- x)\<bar>"
      using big True by (simp add: toFixed_def abs_minus_commute)
    also have "\<dots> \<le> 1 / (2 * 10 ^ d)" by (rule round_scaled)
    finally show ?thesis .
  next
    case False
    with big show ?thesis using round_scaled [of x d] by (simp add: toFixed_def)
  qed
qed

text \<open>Below \<open>10\<^sup>2\<^sup>1\<close> the result has at most \<open>d\<close> decimal digits.\<close>

lemma toFixed_digits:
  assumes "\<bar>x\<bar> < 10 ^ 21"
  shows "toFixed d x * 10 ^ d \<in> \<int>"
  using assms by (simp add: toFixed_def)

lemma two_steps:
  fixes x w z h k :: real
  assumes "\<bar>z - w\<bar> \<le> h" and "\<bar>w - x\<bar> \<le> k"
  shows "\<bar>z - x\<bar> \<le> h + k"
  using assms by linarith

subsection \<open>Conversion\<close>

text \<open>A unit that is not in \<^verbatim>\<open>config.units\<close> makes the conversion the identity.\<close>

lemma convertValue_unknown_unit:
  assumes "find (\<lambda>u. uvalue u = fromUnit) (units cfg) = None
           \<or> find (\<lambda>u. uvalue u = toUnit) (units cfg) = None"
  shows "convertValue cfg x fromUnit toUnit = x"
  using assms by (auto simp add: convertValue_def split: option.splits)

text \<open>The scenario of the specification: 150 lb are 68 kg.\<close>

lemma convertValue_lb_kg: "convertValue weight 150 ''lb'' ''kg'' = 68"
  by (simp add: convertValue_def weight_def precision_or_1_def toFixed_def)

subsection \<open>Conversion on doubles\<close>

text \<open>Without rounding, the conversion on doubles is the exact conversion.\<close>

lemma convertValue_double_exact:
  "convertValue_double (\<lambda>v. v) cfg x u1 u2 = convertValue cfg x u1 u2"
  by (simp add: convertValue_double_def convertValue_def toBase_def fromBase_def Let_def
      split: option.splits conversion.splits)

text \<open>
  Between two different units that are both found, with a precision of at least 1, the
  conversion is the two steps, the rounding to that many digits and the rounding of
  \<^verbatim>\<open>Number\<close>.
\<close>

lemma convertValue_double_linear:
  assumes "u1 \<noteq> u2"
    and "find (\<lambda>u. uvalue u = u1) (units cfg) = Some a"
    and "find (\<lambda>u. uvalue u = u2) (units cfg) = Some b"
    and "precision cfg = Some p" and "0 < p"
  shows "convertValue_double rnd cfg x u1 u2 = rnd (toFixed p (fromBase rnd b (toBase rnd a x)))"
  using assms by (simp add: convertValue_double_def precision_or_1_def)

lemma double_roundingD:
  assumes "double_rounding rnd" and "\<bar>v\<bar> \<le> 2 ^ 1000"
  shows "\<bar>rnd v - v\<bar> \<le> \<bar>v\<bar> / 2 ^ 52 + 1 / 2 ^ 1074"
  using assms by (simp add: double_rounding_def)

text \<open>The rounded factor of a unit is within \<open>2\<^sup>-\<^sup>5\<^sup>1\<close> of the factor.\<close>

lemma factor_positive:
  fixes f :: real
  assumes "1 / 10 ^ 6 \<le> f"
  shows "0 < f"
proof -
  have "(0::real) < 1 / 10 ^ 6" by simp
  with assms show ?thesis by linarith
qed

lemma subnormal_small: "(1::real) / 2 ^ 1074 \<le> 1 / 10 ^ 6 / 2 ^ 52"
  by simp

lemma factor_rounded:
  fixes f :: real
  assumes rnd: "double_rounding rnd"
    and f: "1 / 10 ^ 6 \<le> f" "f \<le> 10 ^ 6"
  shows "\<bar>rnd f - f\<bar> \<le> f / 2 ^ 51" and "f / 2 \<le> rnd f" and "rnd f \<le> 2 * f"
proof -
  have fpos: "0 < f" using f(1) by (rule factor_positive)
  have "(10::real) ^ 6 \<le> 2 ^ 1000" by simp
  with f fpos have "\<bar>f\<bar> \<le> 2 ^ 1000" by simp
  from double_roundingD [OF rnd this] fpos
  have "\<bar>rnd f - f\<bar> \<le> f / 2 ^ 52 + 1 / 2 ^ 1074" by simp
  moreover have "(1::real) / 2 ^ 1074 \<le> f / 2 ^ 52"
  proof -
    have "1 / 10 ^ 6 / 2 ^ 52 \<le> f / 2 ^ 52" using f(1) by (simp add: divide_right_mono)
    with subnormal_small show ?thesis by linarith
  qed
  moreover have "f / 2 ^ 52 + f / 2 ^ 52 = f / 2 ^ 51" by simp
  ultimately show le: "\<bar>rnd f - f\<bar> \<le> f / 2 ^ 51" by linarith
  have "f / 2 ^ 51 \<le> f / 2" using fpos by (simp add: field_simps)
  with le show "f / 2 \<le> rnd f" and "rnd f \<le> 2 * f" by linarith+
qed

text \<open>Division by a rounded factor.\<close>

lemma divide_rounded:
  fixes f F v :: real
  assumes f: "0 < f" and F: "\<bar>F - f\<bar> \<le> f / 2 ^ 51" "f / 2 \<le> F"
  shows "\<bar>v / F - v / f\<bar> \<le> \<bar>v\<bar> / f / 2 ^ 50" and "\<bar>v / F\<bar> \<le> 2 * (\<bar>v\<bar> / f)"
proof -
  have Fpos: "0 < F" using f F(2) by linarith
  have "v / F - v / f = v * (f - F) / (F * f)"
    using f Fpos by (simp add: field_simps)
  then have "\<bar>v / F - v / f\<bar> = \<bar>v\<bar> * \<bar>F - f\<bar> / (F * f)"
    using f Fpos by (simp add: abs_mult abs_minus_commute)
  also have "\<dots> \<le> \<bar>v\<bar> * (f / 2 ^ 51) / (F * f)"
    using f Fpos F(1) by (intro divide_right_mono mult_left_mono) simp_all
  also have "\<dots> = \<bar>v\<bar> / 2 ^ 51 / F" using f by simp
  also have "\<dots> \<le> \<bar>v\<bar> / 2 ^ 51 / (f / 2)"
    using f F(2) by (intro divide_left_mono) simp_all
  also have "\<dots> = \<bar>v\<bar> / f / 2 ^ 50" by simp
  finally show "\<bar>v / F - v / f\<bar> \<le> \<bar>v\<bar> / f / 2 ^ 50" .
  have "\<bar>v / F\<bar> = \<bar>v\<bar> / F" using Fpos by simp
  also have "\<dots> \<le> \<bar>v\<bar> / (f / 2)"
    using f F(2) by (intro divide_left_mono) simp_all
  also have "\<dots> = 2 * (\<bar>v\<bar> / f)" by simp
  finally show "\<bar>v / F\<bar> \<le> 2 * (\<bar>v\<bar> / f)" .
qed

lemma toBase_error:
  assumes rnd: "double_rounding rnd"
    and c: "conversion uc = None \<and> f = 1 \<or> conversion uc = Some (Linear f)"
    and f: "1 / 10 ^ 6 \<le> f" "f \<le> 10 ^ 6"
    and v: "\<bar>v\<bar> \<le> 2 ^ 100"
  shows "\<bar>toBase rnd uc v - v / f\<bar> \<le> \<bar>v\<bar> / f / 2 ^ 49 + 1 / 2 ^ 1074"
proof -
  have fpos: "0 < f" using f(1) by (rule factor_positive)
  have nonneg: "0 \<le> \<bar>v\<bar> / f / 2 ^ 49 + 1 / 2 ^ 1074" using fpos by simp
  from c show ?thesis
  proof
    assume "conversion uc = None \<and> f = 1"
    then have "toBase rnd uc v = v / f" by (simp add: toBase_def)
    with nonneg show ?thesis by simp
  next
    assume lin: "conversion uc = Some (Linear f)"
    define F where "F = rnd f"
    note F = factor_rounded [OF rnd f, folded F_def]
    have Fpos: "0 < F" using fpos F(2) by linarith
    then have tb: "toBase rnd uc v = rnd (v / F)" by (simp add: toBase_def lin F_def)
    note d = divide_rounded [OF fpos F(1) F(2), of v]
    have "\<bar>v\<bar> / f \<le> 2 ^ 100 / (1 / 10 ^ 6)"
      using v f(1) fpos by (intro frac_le) simp_all
    then have vf: "\<bar>v\<bar> / f \<le> 2 ^ 100 * 10 ^ 6" by simp
    have "(2::real) * (2 ^ 100 * 10 ^ 6) \<le> 2 ^ 1000" by simp
    with d(2) vf have "\<bar>v / F\<bar> \<le> 2 ^ 1000" by linarith
    from double_roundingD [OF rnd this]
    have "\<bar>rnd (v / F) - v / F\<bar> \<le> \<bar>v / F\<bar> / 2 ^ 52 + 1 / 2 ^ 1074" .
    moreover have "\<bar>v / F\<bar> / 2 ^ 52 \<le> 2 * (\<bar>v\<bar> / f) / 2 ^ 52"
      using d(2) by (intro divide_right_mono) simp_all
    moreover have "2 * (\<bar>v\<bar> / f) / 2 ^ 52 + \<bar>v\<bar> / f / 2 ^ 50 \<le> \<bar>v\<bar> / f / 2 ^ 49"
      using fpos by (simp add: field_simps)
    ultimately show ?thesis using d(1) tb by linarith
  qed
qed

lemma fromBase_error:
  assumes rnd: "double_rounding rnd"
    and c: "conversion uc = None \<and> f = 1 \<or> conversion uc = Some (Linear f)"
    and f: "1 / 10 ^ 6 \<le> f" "f \<le> 10 ^ 6"
    and w: "\<bar>w\<bar> \<le> 2 ^ 200"
  shows "\<bar>fromBase rnd uc w - w * f\<bar> \<le> \<bar>w\<bar> * f / 2 ^ 50 + 1 / 2 ^ 1074"
proof -
  have fpos: "0 < f" using f(1) by (rule factor_positive)
  have nonneg: "0 \<le> \<bar>w\<bar> * f / 2 ^ 50 + 1 / 2 ^ 1074" using fpos by simp
  from c show ?thesis
  proof
    assume "conversion uc = None \<and> f = 1"
    then have "fromBase rnd uc w = w * f" by (simp add: fromBase_def)
    with nonneg show ?thesis by simp
  next
    assume lin: "conversion uc = Some (Linear f)"
    define F where "F = rnd f"
    note F = factor_rounded [OF rnd f, folded F_def]
    have Fpos: "0 < F" using fpos F(2) by linarith
    then have fb: "fromBase rnd uc w = rnd (w * F)" by (simp add: fromBase_def lin F_def)
    have "w * F - w * f = w * (F - f)" by (simp add: algebra_simps)
    then have "\<bar>w * F - w * f\<bar> = \<bar>w\<bar> * \<bar>F - f\<bar>" by (simp add: abs_mult)
    also have "\<dots> \<le> \<bar>w\<bar> * (f / 2 ^ 51)"
      using F(1) by (intro mult_left_mono) simp_all
    finally have e1: "\<bar>w * F - w * f\<bar> \<le> \<bar>w\<bar> * f / 2 ^ 51" by simp
    have "\<bar>w * F\<bar> = \<bar>w\<bar> * F" using Fpos by (simp add: abs_mult)
    also have "\<dots> \<le> \<bar>w\<bar> * (2 * f)"
      using F(3) by (intro mult_left_mono) simp_all
    finally have wF: "\<bar>w * F\<bar> \<le> 2 * (\<bar>w\<bar> * f)" by simp
    have "\<bar>w\<bar> * f \<le> 2 ^ 200 * 10 ^ 6"
      using w f(2) fpos by (intro mult_mono) simp_all
    moreover have "(2::real) * (2 ^ 200 * 10 ^ 6) \<le> 2 ^ 1000" by simp
    ultimately have "\<bar>w * F\<bar> \<le> 2 ^ 1000" using wF by linarith
    from double_roundingD [OF rnd this]
    have "\<bar>rnd (w * F) - w * F\<bar> \<le> \<bar>w * F\<bar> / 2 ^ 52 + 1 / 2 ^ 1074" .
    moreover have "\<bar>w * F\<bar> / 2 ^ 52 \<le> 2 * (\<bar>w\<bar> * f) / 2 ^ 52"
      using wF by (intro divide_right_mono) simp_all
    moreover have "2 * (\<bar>w\<bar> * f) / 2 ^ 52 + \<bar>w\<bar> * f / 2 ^ 51 = \<bar>w\<bar> * f / 2 ^ 50"
      by simp
    ultimately show ?thesis using e1 fb by linarith
  qed
qed

text \<open>One conversion: both steps, the rounding to digits and the final rounding.\<close>

lemma leg_error:
  assumes rnd: "double_rounding rnd"
    and ca: "conversion a = None \<and> fa = 1 \<or> conversion a = Some (Linear fa)"
    and cb: "conversion b = None \<and> fb = 1 \<or> conversion b = Some (Linear fb)"
    and fa: "1 / 10 ^ 6 \<le> fa" "fa \<le> 10 ^ 6"
    and fb: "1 / 10 ^ 6 \<le> fb" "fb \<le> 10 ^ 6"
    and A: "\<bar>v\<bar> * fb / fa \<le> A" "A \<le> 2 ^ 41"
  shows "\<bar>rnd (toFixed d (fromBase rnd b (toBase rnd a v))) - v * fb / fa\<bar>
           \<le> (1 + 1 / 2 ^ 52) / (2 * 10 ^ d) + A / 2 ^ 47 + 1 / 2 ^ 1053"
proof -
  define \<eta> :: real where "\<eta> = 1 / 2 ^ 1074"
  define h :: real where "h = 1 / (2 * 10 ^ d)"
  define q where "q = v / fa"
  define B where "B = toBase rnd a v"
  define t where "t = fromBase rnd b B"
  define y0 where "y0 = toFixed d t"
  have fapos: "0 < fa" using fa(1) by (rule factor_positive)
  have fbpos: "0 < fb" using fb(1) by (rule factor_positive)
  have \<eta>: "0 \<le> \<eta>" "\<eta> \<le> 1" "10 ^ 6 * \<eta> \<le> 1" "(10 ^ 6 + 4) * \<eta> \<le> 1 / 2 ^ 1053"
    by (simp_all add: \<eta>_def)
  have h: "0 \<le> h" "h \<le> 1 / 2"
  proof -
    show "0 \<le> h" by (simp add: h_def)
    have "(1::real) \<le> 10 ^ d" by simp
    then have "1 / (2 * 10 ^ d) \<le> 1 / (2 * (1::real))"
      by (intro divide_left_mono) simp_all
    then show "h \<le> 1 / 2" by (simp add: h_def)
  qed
  have Apos: "0 \<le> A"
  proof -
    have "0 \<le> \<bar>v\<bar> * fb / fa" using fapos fbpos by simp
    with A(1) show ?thesis by linarith
  qed
  have qfb: "\<bar>q\<bar> * fb \<le> A" using A(1) fapos by (simp add: q_def)
  have qb: "\<bar>q\<bar> \<le> 2 ^ 41 * 10 ^ 6"
  proof -
    have "\<bar>q\<bar> * (1 / 10 ^ 6) \<le> \<bar>q\<bar> * fb" using fb(1) by (intro mult_left_mono) simp_all
    with qfb A(2) have "\<bar>q\<bar> * (1 / 10 ^ 6) \<le> 2 ^ 41" by linarith
    then show ?thesis by (simp add: field_simps)
  qed
  have vb: "\<bar>v\<bar> \<le> 2 ^ 100"
  proof -
    have "\<bar>v\<bar> = \<bar>q\<bar> * fa" using fapos by (simp add: q_def)
    also have "\<dots> \<le> (2 ^ 41 * 10 ^ 6) * 10 ^ 6"
      using qb fa(2) fapos by (intro mult_mono) simp_all
    also have "\<dots> \<le> 2 ^ 100" by simp
    finally show ?thesis .
  qed
  have eB: "\<bar>B - q\<bar> \<le> \<bar>q\<bar> / 2 ^ 49 + \<eta>"
    using toBase_error [OF rnd ca fa vb] fapos by (simp add: B_def q_def \<eta>_def)
  have Bq: "\<bar>B\<bar> \<le> 2 * \<bar>q\<bar> + \<eta>"
  proof -
    have "\<bar>q\<bar> / 2 ^ 49 \<le> \<bar>q\<bar>" by (simp add: field_simps)
    with eB show ?thesis by linarith
  qed
  have Bb: "\<bar>B\<bar> \<le> 2 ^ 200"
  proof -
    have "(2::real) * (2 ^ 41 * 10 ^ 6) + 1 \<le> 2 ^ 200" by simp
    with Bq qb \<eta>(2) show ?thesis by linarith
  qed
  have et: "\<bar>t - B * fb\<bar> \<le> \<bar>B\<bar> * fb / 2 ^ 50 + \<eta>"
    using fromBase_error [OF rnd cb fb Bb] by (simp add: t_def \<eta>_def)
  have fb\<eta>: "fb * \<eta> \<le> 10 ^ 6 * \<eta>" using fb(2) \<eta>(1) by (intro mult_right_mono) simp_all
  have e1: "\<bar>B * fb - q * fb\<bar> \<le> A / 2 ^ 49 + 10 ^ 6 * \<eta>"
  proof -
    have "B * fb - q * fb = (B - q) * fb" by (simp add: algebra_simps)
    then have "\<bar>B * fb - q * fb\<bar> = \<bar>B - q\<bar> * fb" using fbpos by (simp add: abs_mult)
    also have "\<dots> \<le> (\<bar>q\<bar> / 2 ^ 49 + \<eta>) * fb"
      using eB fbpos by (intro mult_right_mono) simp_all
    also have "\<dots> = (\<bar>q\<bar> * fb) / 2 ^ 49 + fb * \<eta>" by (simp add: algebra_simps)
    also have "\<dots> \<le> A / 2 ^ 49 + 10 ^ 6 * \<eta>"
      using qfb fb\<eta> by (intro add_mono divide_right_mono) simp_all
    finally show ?thesis .
  qed
  have Bfb: "\<bar>B\<bar> * fb \<le> 2 * A + 10 ^ 6 * \<eta>"
  proof -
    have "\<bar>B\<bar> * fb \<le> (2 * \<bar>q\<bar> + \<eta>) * fb"
      using Bq fbpos by (intro mult_right_mono) simp_all
    also have "\<dots> = 2 * (\<bar>q\<bar> * fb) + fb * \<eta>" by (simp add: algebra_simps)
    also have "\<dots> \<le> 2 * A + 10 ^ 6 * \<eta>" using qfb fb\<eta> by linarith
    finally show ?thesis .
  qed
  have e2: "\<bar>t - B * fb\<bar> \<le> A / 2 ^ 49 + 2 * \<eta>"
  proof -
    have "\<bar>B\<bar> * fb / 2 ^ 50 \<le> (2 * A + 10 ^ 6 * \<eta>) / 2 ^ 50"
      using Bfb by (intro divide_right_mono) simp_all
    also have "\<dots> = A / 2 ^ 49 + 10 ^ 6 * \<eta> / 2 ^ 50" by (simp add: add_divide_distrib)
    also have "\<dots> \<le> A / 2 ^ 49 + \<eta>" using \<eta>(1) by (simp add: field_simps)
    finally show ?thesis using et by linarith
  qed
  have eqt: "\<bar>t - q * fb\<bar> \<le> A / 2 ^ 48 + (10 ^ 6 + 2) * \<eta>"
  proof -
    have "A / 2 ^ 49 + A / 2 ^ 49 = A / 2 ^ 48" by simp
    with e1 e2 show ?thesis by (simp add: algebra_simps)
  qed
  have ey0: "\<bar>y0 - t\<bar> \<le> h" unfolding y0_def h_def by (rule toFixed_error)
  have qfb': "\<bar>q * fb\<bar> \<le> A" using qfb fbpos by (simp add: abs_mult)
  have y0b: "\<bar>y0\<bar> \<le> A + A / 2 ^ 48 + (10 ^ 6 + 2) * \<eta> + h"
    using ey0 eqt qfb' by linarith
  have "\<bar>y0\<bar> \<le> 2 ^ 1000"
  proof -
    have "A / 2 ^ 48 \<le> A" using Apos by (simp add: field_simps)
    moreover have "(10 ^ 6 + 2) * \<eta> \<le> 1" by (simp add: \<eta>_def)
    moreover have "(2::real) * 2 ^ 41 + 1 + 1 / 2 \<le> 2 ^ 1000" by simp
    ultimately show ?thesis using y0b A(2) h(2) by linarith
  qed
  from double_roundingD [OF rnd this]
  have ey: "\<bar>rnd y0 - y0\<bar> \<le> \<bar>y0\<bar> / 2 ^ 52 + \<eta>" by (simp add: \<eta>_def)
  have y052: "\<bar>y0\<bar> / 2 ^ 52 \<le> A / 2 ^ 51 + \<eta> + h / 2 ^ 52"
  proof -
    have "\<bar>y0\<bar> / 2 ^ 52 \<le> (A + A / 2 ^ 48 + (10 ^ 6 + 2) * \<eta> + h) / 2 ^ 52"
      using y0b by (intro divide_right_mono) simp_all
    also have "\<dots> = A / 2 ^ 52 + A / 2 ^ 48 / 2 ^ 52 + (10 ^ 6 + 2) * \<eta> / 2 ^ 52 + h / 2 ^ 52"
      by (simp add: add_divide_distrib)
    also have "\<dots> \<le> A / 2 ^ 52 + A / 2 ^ 52 + \<eta> + h / 2 ^ 52"
    proof -
      have "A / 2 ^ 48 / 2 ^ 52 \<le> A / 2 ^ 52" using Apos by (simp add: field_simps)
      moreover have "(10 ^ 6 + 2) * \<eta> / 2 ^ 52 \<le> \<eta>" using \<eta>(1) by (simp add: field_simps)
      ultimately show ?thesis by linarith
    qed
    also have "\<dots> = A / 2 ^ 51 + \<eta> + h / 2 ^ 52" by simp
    finally show ?thesis .
  qed
  have sum: "A / 2 ^ 48 + A / 2 ^ 51 \<le> A / 2 ^ 47" using Apos by (simp add: field_simps)
  have "\<bar>rnd y0 - q * fb\<bar> \<le> h + h / 2 ^ 52 + A / 2 ^ 47 + (10 ^ 6 + 4) * \<eta>"
    using ey y052 ey0 eqt sum by (simp add: algebra_simps)
  moreover have "h + h / 2 ^ 52 = (1 + 1 / 2 ^ 52) / (2 * 10 ^ d)"
    by (simp add: h_def field_simps)
  moreover have "q * fb = v * fb / fa" by (simp add: q_def)
  ultimately show ?thesis
    using \<eta>(4) unfolding y0_def t_def B_def by linarith
qed

text \<open>The rounding to nearest of IEEE 754 is such a rounding.\<close>

lemma rne_error: "\<bar>of_int (rne q) - q\<bar> \<le> 1 / 2"
  unfolding rne_def Let_def by (auto; linarith)

lemma double_error: "double_rounding double"
  unfolding double_rounding_def
proof (intro allI impI)
  fix v :: real
  show "\<bar>double v - v\<bar> \<le> \<bar>v\<bar> / 2 ^ 52 + 1 / 2 ^ 1074"
  proof (cases "v = 0")
    case True
    then show ?thesis by (simp add: double_def)
  next
    case False
    define e where "e = max \<lfloor>log 2 \<bar>v\<bar>\<rfloor> (- 1022)"
    define u :: real where "u = 2 powr (of_int e - 52)"
    have upos: "0 < u" by (simp add: u_def)
    have dv: "double v = of_int (rne (v / u)) * u"
      using False by (simp add: double_def Let_def e_def u_def)
    have "double v - v = (of_int (rne (v / u)) - v / u) * u"
      using upos by (simp add: dv field_simps)
    then have "\<bar>double v - v\<bar> = \<bar>of_int (rne (v / u)) - v / u\<bar> * u"
      using upos by (simp add: abs_mult)
    also have "\<dots> \<le> 1 / 2 * u"
      using rne_error [of "v / u"] upos by (intro mult_right_mono) simp_all
    finally have half: "\<bar>double v - v\<bar> \<le> u / 2" by simp
    have u2: "u / 2 = 2 powr (of_int e) / 2 ^ 53"
    proof -
      have "u = 2 powr (of_int e) / 2 powr 52" by (simp add: u_def powr_diff)
      also have "(2::real) powr 52 = 2 ^ 52" by (simp add: powr_realpow [symmetric])
      finally show ?thesis by simp
    qed
    show ?thesis
    proof (cases "- 1022 \<le> \<lfloor>log 2 \<bar>v\<bar>\<rfloor>")
      case True
      then have "e = \<lfloor>log 2 \<bar>v\<bar>\<rfloor>" by (simp add: e_def)
      then have "of_int e \<le> log 2 \<bar>v\<bar>" by simp
      then have "2 powr (of_int e) \<le> \<bar>v\<bar>"
        using False by (simp add: powr_le_iff)
      then have "2 powr (of_int e) / 2 ^ 53 \<le> \<bar>v\<bar> / 2 ^ 53"
        by (intro divide_right_mono) simp_all
      moreover have "\<bar>v\<bar> / 2 ^ 53 \<le> \<bar>v\<bar> / 2 ^ 52" by (simp add: field_simps)
      moreover have "(0::real) \<le> 1 / 2 ^ 1074" by simp
      ultimately show ?thesis using half u2 by linarith
    next
      case False
      then have "e = - 1022" by (simp add: e_def)
      then have "(2::real) powr (of_int e) = 2 powr (- 1022)" by simp
      also have "\<dots> = 1 / 2 powr 1022" by (rule powr_minus_divide)
      also have "(2::real) powr 1022 = 2 ^ 1022" by (rule powr_numeral) simp
      finally have "(2::real) powr (of_int e) = 1 / 2 ^ 1022" .
      then have "u / 2 = 1 / 2 ^ 1022 / 2 ^ 53" using u2 by simp
      also have "\<dots> \<le> 1 / 2 ^ 1074" by simp
      finally have "u / 2 \<le> 1 / 2 ^ 1074" .
      moreover have "0 \<le> \<bar>v\<bar> / 2 ^ 52" by simp
      ultimately show ?thesis using half by linarith
    qed
  qed
qed

text \<open>
  Evaluating the rounding: a value whose significand, scaled by \<open>2\<^sup>m\<close>, lies between
  \<open>2\<^sup>5\<^sup>2\<close> and \<open>2\<^sup>5\<^sup>3\<close> is rounded to the nearest multiple of \<open>2\<^sup>-\<^sup>m\<close>.
\<close>

lemma double_significand:
  assumes lo: "2 ^ 52 \<le> \<bar>v\<bar> * 2 ^ m" and hi: "\<bar>v\<bar> * 2 ^ m < 2 ^ 53" and m: "m \<le> 1074"
  shows "double v = of_int (rne (v * 2 ^ m)) / 2 ^ m"
proof -
  define e :: int where "e = 52 - int m"
  have u: "(2::real) powr (of_int e - 52) = 1 / 2 ^ m"
  proof -
    have "of_int e - (52::real) = - real m" by (simp add: e_def)
    then have "(2::real) powr (of_int e - 52) = 2 powr (- real m)" by simp
    also have "\<dots> = 1 / 2 powr (real m)" by (rule powr_minus_divide)
    also have "(2::real) powr (real m) = 2 ^ m" by (rule powr_realpow) simp
    finally show ?thesis .
  qed
  have pe: "(2::real) powr (of_int e) = 2 ^ 52 / 2 ^ m"
  proof -
    have "(2::real) powr (of_int e) = 2 powr ((of_int e - 52) + 52)" by simp
    also have "\<dots> = 2 powr (of_int e - 52) * 2 powr 52" by (rule powr_add)
    also have "(2::real) powr 52 = 2 ^ 52" by (rule powr_numeral) simp
    finally show ?thesis using u by simp
  qed
  have pos: "0 < \<bar>v\<bar>"
  proof (rule ccontr)
    assume "\<not> 0 < \<bar>v\<bar>"
    then have "\<bar>v\<bar> * 2 ^ m = 0" by simp
    with lo show False by simp
  qed
  then have nz: "v \<noteq> 0" by simp
  have "2 powr (of_int e) \<le> \<bar>v\<bar>"
    unfolding pe using lo by (simp add: field_simps)
  then have "of_int e \<le> log 2 \<bar>v\<bar>" using pos by (simp add: powr_le_iff)
  moreover have "\<bar>v\<bar> < 2 powr (of_int e + 1)"
  proof -
    have "(2::real) powr (of_int e + 1) = 2 powr (of_int e) * 2" by (simp add: powr_add)
    also have "\<dots> = 2 ^ 53 / 2 ^ m" unfolding pe by simp
    finally have eq: "(2::real) powr (of_int e + 1) = 2 ^ 53 / 2 ^ m" .
    have "\<bar>v\<bar> = \<bar>v\<bar> * 2 ^ m / 2 ^ m" by simp
    also have "\<dots> < 2 ^ 53 / 2 ^ m" using hi by (rule divide_strict_right_mono) simp
    finally show ?thesis unfolding eq .
  qed
  then have "log 2 \<bar>v\<bar> < of_int e + 1" using pos by (simp add: less_powr_iff)
  ultimately have fl: "\<lfloor>log 2 \<bar>v\<bar>\<rfloor> = e" by linarith
  have "- 1022 \<le> e" using m by (simp add: e_def)
  with fl have "max \<lfloor>log 2 \<bar>v\<bar>\<rfloor> (- 1022) = e" by simp
  then have "double v = of_int (rne (v / 2 powr (of_int e - 52))) * 2 powr (of_int e - 52)"
    using nz by (simp add: double_def Let_def)
  then show ?thesis unfolding u by simp
qed

text \<open>
  The doubles of the conversion between cm and m: the factor 0.01 is the double
  \<open>5764607523034235 / 2\<^sup>5\<^sup>9\<close>, a little above 0.01.
\<close>

lemma double_001: "double 0.01 = 5764607523034235 / 2 ^ 59"
proof -
  have "rne (0.01 * 2 ^ 59) = 5764607523034235" by (simp add: rne_def Let_def)
  with double_significand [of "0.01" 59] show ?thesis by simp
qed

lemma double_154: "double (154 * (5764607523034235 / 2 ^ 59)) = 6935543426150564 / 2 ^ 52"
proof -
  have "rne (154 * (5764607523034235 / 2 ^ 59) * 2 ^ 52) = 6935543426150564"
    by (simp add: rne_def Let_def)
  with double_significand [of "154 * (5764607523034235 / 2 ^ 59)" 52] show ?thesis by simp
qed

lemma double_145: "double (145 * (5764607523034235 / 2 ^ 59)) = 6530219459687219 / 2 ^ 52"
proof -
  have "rne (145 * (5764607523034235 / 2 ^ 59) * 2 ^ 52) = 6530219459687219"
    by (simp add: rne_def Let_def)
  with double_significand [of "145 * (5764607523034235 / 2 ^ 59)" 52] show ?thesis by simp
qed

lemma double_15: "double 1.5 = 1.5"
proof -
  have "rne (1.5 * 2 ^ 52) = 6755399441055744" by (simp add: rne_def Let_def)
  with double_significand [of "1.5" 52] show ?thesis by simp
qed

lemma double_14: "double 1.4 = 6305039478318694 / 2 ^ 52"
proof -
  have "rne (1.4 * 2 ^ 52) = 6305039478318694" by (simp add: rne_def Let_def)
  with double_significand [of "1.4" 52] show ?thesis by simp
qed

lemma double_150: "double 150 = 150"
proof -
  have "rne (150 * 2 ^ 45) = 5277655813324800" by (simp add: rne_def Let_def)
  with double_significand [of 150 45] show ?thesis by simp
qed

lemma double_back: "double (1.5 / (5764607523034235 / 2 ^ 59)) = 150"
proof -
  have "rne (1.5 / (5764607523034235 / 2 ^ 59) * 2 ^ 45) = 5277655813324800"
    by (simp add: rne_def Let_def)
  with double_significand [of "1.5 / (5764607523034235 / 2 ^ 59)" 45] show ?thesis by simp
qed

lemma height_units:
  "find (\<lambda>u. uvalue u = ''cm'') (units height)
     = Some \<lparr>uvalue = ''cm'', label = ''cm'', conversion = None\<rparr>"
  "find (\<lambda>u. uvalue u = ''m'') (units height)
     = Some \<lparr>uvalue = ''m'', label = ''m'', conversion = Some (Linear 0.01)\<rparr>"
  "precision_or_1 height = 1"
  by (simp_all add: height_def precision_or_1_def)

lemma double_001_nz: "double 0.01 \<noteq> 0"
  unfolding double_001 by simp

lemma cm_m: "convertValue_double double height x ''cm'' ''m''
               = double (toFixed 1 (double (x * double 0.01)))"
  using double_001_nz
  by (simp add: convertValue_double_def height_units toBase_def fromBase_def)

lemma m_cm: "convertValue_double double height x ''m'' ''cm''
               = double (toFixed 1 (double (x / double 0.01)))"
  using double_001_nz
  by (simp add: convertValue_double_def height_units toBase_def fromBase_def)

text \<open>On doubles too, 154 cm are 1.5 m and 1.5 m are 150 cm.\<close>

lemma cm_m_154: "convertValue_double double height 154 ''cm'' ''m'' = 1.5"
proof -
  have tf: "toFixed 1 (6935543426150564 / 2 ^ 52) = 1.5" by (simp add: toFixed_def)
  have "convertValue_double double height 154 ''cm'' ''m''
          = double (toFixed 1 (double (154 * double 0.01)))" by (rule cm_m)
  also have "\<dots> = double (toFixed 1 (double (154 * (5764607523034235 / 2 ^ 59))))"
    by (simp only: double_001)
  also have "\<dots> = double (toFixed 1 (6935543426150564 / 2 ^ 52))"
    by (simp only: double_154)
  also have "\<dots> = double 1.5" by (simp only: tf)
  also have "\<dots> = 1.5" by (rule double_15)
  finally show ?thesis .
qed

lemma m_cm_15: "convertValue_double double height 1.5 ''m'' ''cm'' = 150"
proof -
  have tf: "toFixed 1 150 = 150" by (simp add: toFixed_def)
  have "convertValue_double double height 1.5 ''m'' ''cm''
          = double (toFixed 1 (double (1.5 / double 0.01)))" by (rule m_cm)
  also have "\<dots> = double (toFixed 1 (double (1.5 / (5764607523034235 / 2 ^ 59))))"
    by (simp only: double_001)
  also have "\<dots> = double (toFixed 1 150)" by (simp only: double_back)
  also have "\<dots> = double 150" by (simp only: tf)
  also have "\<dots> = 150" by (rule double_150)
  finally show ?thesis .
qed

text \<open>
  At a decimal tie the two conversions differ: \<open>145 * 0.01\<close> is 1.45 exactly and rounds
  to 1.5, and the product of the doubles is just below 1.45 and rounds to the double 1.4.
\<close>

lemma cm_m_145: "convertValue_double double height 145 ''cm'' ''m'' = double 1.4"
proof -
  have tf: "toFixed 1 (6530219459687219 / 2 ^ 52) = 1.4" by (simp add: toFixed_def)
  have "convertValue_double double height 145 ''cm'' ''m''
          = double (toFixed 1 (double (145 * double 0.01)))" by (rule cm_m)
  also have "\<dots> = double (toFixed 1 (double (145 * (5764607523034235 / 2 ^ 59))))"
    by (simp only: double_001)
  also have "\<dots> = double (toFixed 1 (6530219459687219 / 2 ^ 52))"
    by (simp only: double_145)
  also have "\<dots> = double 1.4" by (simp only: tf)
  finally show ?thesis .
qed

lemma convertValue_tie: "convertValue height 145 ''cm'' ''m'' = 1.5"
  by (simp add: convertValue_def height_def precision_or_1_def toFixed_def)

subsection \<open>Classification\<close>

text \<open>
  A magnitude other than 0 in a unit whose conversion is a function is compared as it is;
  so every temperature above 42 in Fahrenheit is critical.
\<close>

lemma validationState_nonlinear:
  assumes "find (\<lambda>u. uvalue u = n) (units cfg) = Some uc"
    and "conversion uc = Some (NonLinear g)"
    and "ranges cfg = Some rs" and "x \<noteq> 0"
  shows "validationState cfg \<lparr>mvalue = Some (Num x), unit = n\<rparr> =
           Some (if outside (critical rs) x then Critical
                 else if outside (normal rs) x then Warning else Normal)"
  using assms by (simp add: validationState_def)

lemma validationState_fahrenheit:
  assumes "42 < t"
  shows "validationState temperature \<lparr>mvalue = Some (Num t), unit = ''fahrenheit''\<rparr>
           = Some Critical"
  using assms by (simp add: validationState_def temperature_def outside_def)

lemma validationState_absent: "validationState cfg \<lparr>mvalue = None, unit = n\<rparr> = None"
  by (simp add: validationState_def)

text \<open>The scenarios of the specification.\<close>

lemma validationState_scenarios:
  "validationState heart_rate \<lparr>mvalue = Some (Num 45), unit = ''bpm''\<rparr> = Some Warning"
  "validationState temperature \<lparr>mvalue = Some (Num 40), unit = ''celsius''\<rparr> = Some Warning"
  "validationState blood_glucose \<lparr>mvalue = Some (Num 30), unit = ''mg/dL''\<rparr> = Some Critical"
  by (simp_all add: validationState_def heart_rate_def temperature_def blood_glucose_def
      outside_def)

subsection \<open>Parsing\<close>

lemma parsedValue_absent:
  "parsedValue cfg Undefined = \<lparr>mvalue = None, unit = defaultUnit cfg\<rparr>"
  "parsedValue cfg Null = \<lparr>mvalue = None, unit = defaultUnit cfg\<rparr>"
  "parsedValue cfg (Boolean b) = \<lparr>mvalue = None, unit = defaultUnit cfg\<rparr>"
  "parsedValue cfg (String s) = \<lparr>mvalue = None, unit = defaultUnit cfg\<rparr>"
  "parsedValue cfg Function = \<lparr>mvalue = None, unit = defaultUnit cfg\<rparr>"
  by (simp_all add: parsedValue_def)

lemma parsedValue_number:
  assumes "r \<noteq> 0"
  shows "parsedValue cfg (Number (Num r)) = \<lparr>mvalue = Some (Num r), unit = defaultUnit cfg\<rparr>"
  using assms by (simp add: parsedValue_def)

text \<open>
  Parsing gives back the measurement value that the widget emitted when its magnitude is
  not the number 0 (nor \<^verbatim>\<open>NaN\<close>) and its unit is not the empty string.
\<close>

lemma parsedValue_serialize:
  assumes "mvalue m \<noteq> Some (Num 0)" and "mvalue m \<noteq> Some NaN" and "unit m \<noteq> []"
  shows "parsedValue cfg (serialize m) = m"
proof (cases "mvalue m")
  case None
  with assms show ?thesis by (simp add: parsedValue_def serialize_def)
next
  case (Some n)
  with assms show ?thesis by (cases n) (simp_all add: parsedValue_def serialize_def)
qed

subsection \<open>Selection of the configuration and rendering\<close>

text \<open>
  A name that is neither one of the five types nor a property of \<^verbatim>\<open>Object.prototype\<close>
  selects the weight configuration, and a render with a \<^verbatim>\<open>MeasurementConfig\<close> returns.
\<close>

lemma config_unknown:
  assumes "t \<notin> fst ` set MEASUREMENT_CONFIGS" and "t \<notin> set Object_prototype"
  shows "config t = Config weight"
proof -
  from assms(1) have "map_of MEASUREMENT_CONFIGS t = None" by (simp add: map_of_eq_None_iff)
  with assms(2) show ?thesis by (simp add: config_def lookup_config_def)
qed

lemma render_Config: "\<exists>w. render (Config cfg) cell v = Inr w"
  by (simp add: render_def Let_def)

text \<open>A render of a mounted component shows the stored value and leaves it in the cell.\<close>

lemma render_mounted:
  "render (Config cfg) (Some s) v =
     Inr \<lparr>shown = s, unitSelect = (length (units cfg) > 1), badge = validationState cfg s\<rparr>"
  by (simp add: render_def)

lemma step_Render: "step cfg s (Render v) = s"
  by (simp add: render_mounted)

lemma run_filter: "run cfg s es = run cfg s (filter (\<lambda>e. \<not> external e) es)"
proof (induction es arbitrary: s)
  case Nil
  show ?case by simp
next
  case (Cons e es)
  then show ?case by (cases e) (simp_all add: render_mounted)
qed

section \<open>The claims\<close>

text \<open>
  Claim C1: a conversion that is performed rounds its result to \<^verbatim>\<open>config.precision\<close>
  digits, to a whole number when the precision is 0. The code rounds to
  \<^verbatim>\<open>config.precision || 1\<close> digits, and 0 is falsy: with the blood glucose configuration,
  whose precision is 0, converting 20 mg/dL to mmol/L gives 1.1, where rounding \<open>20 * 0.0555\<close>
  to 0 digits gives 1.
\<close>

theorem convertValue_precision_0:
  "precision blood_glucose = Some 0
   \<and> convertValue blood_glucose 20 ''mg/dL'' ''mmol/L'' = 11 / 10
   \<and> toFixed 0 (20 * 0.0555) = 1"
  by (simp add: convertValue_def blood_glucose_def precision_or_1_def toFixed_def)

text \<open>
  Claim C2: the classification is \<^verbatim>\<open>none\<close> exactly when the magnitude or the ranges are
  absent, and every present magnitude, 0 included, is classified. The code tests
  \<^verbatim>\<open>!currentValue.value\<close>, and 0 is falsy: typing 0 into a weight field stores the magnitude
  0 in kg, which lies below the critical minimum 30, and the classification of that value
  is \<^verbatim>\<open>null\<close>.
\<close>

theorem validationState_zero:
  "handleValueChange (mount weight Undefined) (Num 0) = \<lparr>mvalue = Some (Num 0), unit = ''kg''\<rparr>
   \<and> validationState weight \<lparr>mvalue = Some (Num 0), unit = ''kg''\<rparr> = None
   \<and> ranges weight = Some \<lparr>normal = Some \<lparr>rmin = 40, rmax = 200\<rparr>,
                             critical = Some \<lparr>rmin = 30, rmax = 300\<rparr>\<rparr>
   \<and> outside (Some \<lparr>rmin = 30, rmax = 300\<rparr>) 0"
  by (simp add: handleValueChange_def mount_def parsedValue_def validationState_def
      weight_def outside_def)

text \<open>
  Claim C3: parsing maps every plain number, 0 included, to that magnitude in the default
  unit, and an object with the value 0 keeps the magnitude 0. The code tests \<^verbatim>\<open>!value\<close>
  and takes \<^verbatim>\<open>value.value || null\<close>, and 0 is falsy: the number 0 and an object with the
  value 0 are both parsed to an absent magnitude.
\<close>

theorem parsedValue_zero:
  "parsedValue weight (Number (Num 0)) = \<lparr>mvalue = None, unit = ''kg''\<rparr>
   \<and> parsedValue weight (Object (Prop (Num 0)) (Prop ''lb'')) = \<lparr>mvalue = None, unit = ''lb''\<rparr>"
  by (simp add: parsedValue_def weight_def)

text \<open>
  Claim C4: parsing the object that the widget emits for a measurement value gives that
  value back, also when the magnitude is 0. In the code the value 0 kg, emitted as the
  object with the value 0 and the unit kg, is parsed to an absent magnitude in kg.
\<close>

theorem parsedValue_serialize_zero:
  "serialize \<lparr>mvalue = Some (Num 0), unit = ''kg''\<rparr> = Object (Prop (Num 0)) (Prop ''kg'')
   \<and> parsedValue weight (serialize \<lparr>mvalue = Some (Num 0), unit = ''kg''\<rparr>)
       = \<lparr>mvalue = None, unit = ''kg''\<rparr>"
  by (simp add: parsedValue_def serialize_def weight_def)

text \<open>
  Claim C5, as amended: on doubles, for every configuration with a precision \<open>p\<close> from 1
  to 100 and every pair of units \<open>u1\<close>, \<open>u2\<close> of it that are linearly convertible, with
  factors \<open>f1\<close> and \<open>f2\<close> from the base unit (1 for the base unit itself) between
  \<open>10\<^sup>-\<^sup>6\<close> and \<open>10\<^sup>6\<close> such that \<open>2 * f1 \<le> f2\<close>, that is, such that the conversion from
  \<open>u1\<close> to \<open>u2\<close> scales the magnitude up at least twofold, and for every magnitude \<open>x\<close>
  whose converted value \<open>\<bar>x\<bar> * f2 / f1\<close> is at most \<open>10\<^sup>1\<^sup>2\<close> units of the last digit,
  converting \<open>x\<close> from \<open>u1\<close> to \<open>u2\<close> and back gives a value within \<open>10\<^sup>-\<^sup>p\<close> of \<open>x\<close>.
\<close>

theorem convertValue_round_trip:
  assumes rnd: "double_rounding rnd"
    and a: "find (\<lambda>u. uvalue u = u1) (units cfg) = Some a"
    and b: "find (\<lambda>u. uvalue u = u2) (units cfg) = Some b"
    and ca: "conversion a = None \<and> f1 = 1 \<or> conversion a = Some (Linear f1)"
    and cb: "conversion b = None \<and> f2 = 1 \<or> conversion b = Some (Linear f2)"
    and f: "1 / 10 ^ 6 \<le> f1" "2 * f1 \<le> f2" "f2 \<le> 10 ^ 6"
    and p: "precision cfg = Some p" "0 < p" "p \<le> 100"
    and x: "\<bar>x\<bar> * f2 * 10 ^ p \<le> 10 ^ 12 * f1"
  shows "\<bar>convertValue_double rnd cfg (convertValue_double rnd cfg x u1 u2) u2 u1 - x\<bar>
           \<le> 1 / 10 ^ p"
proof (cases "u1 = u2")
  case True
  then show ?thesis by (simp add: convertValue_double_def)
next
  case False
  define K :: real where "K = 1 / 10 ^ p"
  define A :: real where "A = 10 ^ 12 * K"
  define y where "y = rnd (toFixed p (fromBase rnd b (toBase rnd a x)))"
  define z where "z = rnd (toFixed p (fromBase rnd a (toBase rnd b y)))"
  define E where "E = (1 + 1 / 2 ^ 52) / (2 * 10 ^ p) + A / 2 ^ 47 + 1 / 2 ^ 1053"
  define A2 where "A2 = A / 2 + E / 2"
  define E2 where "E2 = (1 + 1 / 2 ^ 52) / (2 * 10 ^ p) + A2 / 2 ^ 47 + 1 / 2 ^ 1053"
  have f1pos: "0 < f1" using f(1) by (rule factor_positive)
  have f2pos: "0 < f2" using f1pos f(2) by linarith
  have f1le: "f1 \<le> 10 ^ 6" using f f1pos by linarith
  have f2ge: "1 / 10 ^ 6 \<le> f2" using f f1pos by linarith
  have Kpos: "0 < K" by (simp add: K_def)
  have K1: "K \<le> 1"
  proof -
    have "(1::real) \<le> 10 ^ p" by simp
    then have "1 / 10 ^ p \<le> 1 / (1::real)" by (intro divide_left_mono) simp_all
    then show ?thesis by (simp add: K_def)
  qed
  have small: "1 / 2 ^ 1053 \<le> K / 100"
  proof -
    have "(10::real) ^ p \<le> 10 ^ 100" using p(3) by (intro power_increasing) simp_all
    then have "1 / 10 ^ 100 \<le> 1 / (10::real) ^ p" by (intro divide_left_mono) simp_all
    then have "1 / 10 ^ 100 / 100 \<le> 1 / (10::real) ^ p / 100"
      by (rule divide_right_mono) simp
    moreover have "(1::real) / 2 ^ 1053 \<le> 1 / 10 ^ 100 / 100" by simp
    ultimately show ?thesis unfolding K_def by (rule order_trans [rotated])
  qed
  have half: "(1 + 1 / 2 ^ 52) / (2 * 10 ^ p) \<le> 51 / 100 * K"
  proof -
    have "(1 + 1 / 2 ^ 52) / (2 * 10 ^ p) = (1 + 1 / 2 ^ 52) / 2 * K"
      by (simp add: K_def)
    also have "\<dots> \<le> 51 / 100 * K" using Kpos by (intro mult_right_mono) simp_all
    finally show ?thesis .
  qed
  have A47: "A / 2 ^ 47 \<le> K / 50"
  proof -
    have "A / 2 ^ 47 = 10 ^ 12 / 2 ^ 47 * K" by (simp add: A_def)
    also have "\<dots> \<le> 1 / 50 * K" using Kpos by (intro mult_right_mono) simp_all
    finally show ?thesis by simp
  qed
  have Apos: "0 \<le> A" using Kpos by (simp add: A_def)
  have Ale: "A \<le> 2 ^ 41"
  proof -
    have "A \<le> 10 ^ 12 * 1" unfolding A_def using K1 by (intro mult_left_mono) simp_all
    also have "\<dots> \<le> (2::real) ^ 41" by simp
    finally show ?thesis .
  qed
  have Ele: "E \<le> 54 / 100 * K" unfolding E_def using half A47 small by linarith
  have Epos: "0 \<le> E" unfolding E_def using Apos by simp
  have xA: "\<bar>x\<bar> * f2 / f1 \<le> A"
  proof -
    have "\<bar>x\<bar> * f2 \<le> 10 ^ 12 * f1 / 10 ^ p"
      using x by (simp add: field_simps)
    then have "\<bar>x\<bar> * f2 / f1 \<le> 10 ^ 12 * f1 / 10 ^ p / f1"
      using f1pos by (intro divide_right_mono) simp_all
    also have "\<dots> = A" using f1pos by (simp add: A_def K_def)
    finally show ?thesis .
  qed
  have \<rho>: "0 \<le> f1 / f2" "f1 / f2 \<le> 1 / 2"
    using f1pos f2pos f(2) by (simp_all add: field_simps)
  have y: "convertValue_double rnd cfg x u1 u2 = y"
    unfolding y_def using False a b p(1,2) by (rule convertValue_double_linear)
  have z: "convertValue_double rnd cfg y u2 u1 = z"
    unfolding z_def using False [symmetric] b a p(1,2) by (intro convertValue_double_linear) auto
  have ey: "\<bar>y - x * f2 / f1\<bar> \<le> E"
    unfolding y_def E_def by (rule leg_error [OF rnd ca cb f(1) f1le f2ge f(3) xA Ale])
  have xb: "\<bar>x\<bar> \<le> A / 2"
  proof -
    have "\<bar>x\<bar> = (\<bar>x\<bar> * f2 / f1) * (f1 / f2)" using f1pos f2pos by simp
    also have "\<dots> \<le> A * (1 / 2)"
      using xA \<rho> Apos by (intro mult_mono) simp_all
    finally show ?thesis by simp
  qed
  have ret: "\<bar>y * f1 / f2 - x\<bar> \<le> E / 2"
  proof -
    have "y * f1 / f2 - x = (y - x * f2 / f1) * (f1 / f2)"
      using f1pos f2pos by (simp add: field_simps)
    then have "\<bar>y * f1 / f2 - x\<bar> = \<bar>y - x * f2 / f1\<bar> * \<bar>f1 / f2\<bar>"
      by (simp only: abs_mult)
    also have "\<bar>f1 / f2\<bar> = f1 / f2" using \<rho>(1) by (rule abs_of_nonneg)
    finally have "\<bar>y * f1 / f2 - x\<bar> = \<bar>y - x * f2 / f1\<bar> * (f1 / f2)" .
    also have "\<dots> \<le> E * (1 / 2)"
      using ey \<rho> Epos by (intro mult_mono) simp_all
    finally show ?thesis by simp
  qed
  have yA: "\<bar>y\<bar> * f1 / f2 \<le> A2"
  proof -
    have "\<bar>y\<bar> * f1 / f2 = \<bar>y * f1 / f2\<bar>" using f1pos f2pos by (simp add: abs_mult)
    also have "\<dots> \<le> \<bar>x\<bar> + E / 2" using ret by linarith
    also have "\<dots> \<le> A / 2 + E / 2" using xb by linarith
    finally show ?thesis by (simp add: A2_def)
  qed
  have A2pos: "0 \<le> A2" unfolding A2_def using Apos Epos by simp
  have A2le: "A2 \<le> 2 ^ 41"
  proof -
    have "(1::real) \<le> 2 ^ 41" by simp
    with Ale Ele K1 show ?thesis unfolding A2_def by linarith
  qed
  have A247: "A2 / 2 ^ 47 \<le> K / 50"
  proof -
    have "A2 \<le> A" unfolding A2_def using Ele Kpos
      by (simp add: A_def) 
    then have "A2 / 2 ^ 47 \<le> A / 2 ^ 47" by (intro divide_right_mono) simp_all
    with A47 show ?thesis by linarith
  qed
  have ez: "\<bar>z - y * f1 / f2\<bar> \<le> E2"
    unfolding z_def E2_def by (rule leg_error [OF rnd cb ca f2ge f(3) f(1) f1le yA A2le])
  have E2le: "E2 \<le> 54 / 100 * K" unfolding E2_def using half A247 small by linarith
  have "\<bar>z - x\<bar> \<le> E2 + E / 2" by (rule two_steps [OF ez ret])
  also have "\<dots> \<le> K" using E2le Ele Kpos by linarith
  finally show ?thesis by (simp add: y z K_def)
qed

text \<open>
  From kg to lb and back with the rounding of IEEE 754, 70 kg come back within 0.1 kg; in
  exact arithmetic 70 kg are 154.3 lb and then 70 kg again.
\<close>

theorem convertValue_round_trip_witness:
  "convertValue weight 70 ''kg'' ''lb'' = 154.3
   \<and> convertValue weight 154.3 ''lb'' ''kg'' = 70
   \<and> \<bar>convertValue_double double weight (convertValue_double double weight 70 ''kg'' ''lb'')
        ''lb'' ''kg'' - 70\<bar> \<le> 1 / 10 ^ 1"
proof -
  have a: "find (\<lambda>u. uvalue u = ''kg'') (units weight)
             = Some \<lparr>uvalue = ''kg'', label = ''kg'', conversion = None\<rparr>"
    by (simp add: weight_def)
  have b: "find (\<lambda>u. uvalue u = ''lb'') (units weight)
             = Some \<lparr>uvalue = ''lb'', label = ''lbs'', conversion = Some (Linear 2.20462)\<rparr>"
    by (simp add: weight_def)
  have p: "precision weight = Some 1" by (simp add: weight_def)
  have trip: "\<bar>convertValue_double double weight
                  (convertValue_double double weight 70 ''kg'' ''lb'') ''lb'' ''kg'' - 70\<bar>
                \<le> 1 / 10 ^ 1"
    by (rule convertValue_round_trip [OF double_error a b _ _ _ _ _ p,
          where ?f1.0 = 1 and ?f2.0 = "2.20462"]) simp_all
  have forth: "convertValue weight 70 ''kg'' ''lb'' = 154.3"
    by (simp add: convertValue_def weight_def precision_or_1_def toFixed_def)
  have again: "convertValue weight 154.3 ''lb'' ''kg'' = 70"
    by (simp add: convertValue_def weight_def precision_or_1_def toFixed_def)
  from forth again trip show ?thesis by (intro conjI)
qed

text \<open>
  The claim as it stands fails where the conversion scales down, on doubles as in exact
  arithmetic: 154 cm is 1.5 m after rounding to one digit, and 1.5 m is 150 cm, which is
  4 cm away from 154 cm.
\<close>

theorem convertValue_round_trip_counterexample:
  "precision height = Some 1
   \<and> convertValue height 154 ''cm'' ''m'' = 1.5
   \<and> convertValue height 1.5 ''m'' ''cm'' = 150
   \<and> \<not> \<bar>convertValue height (convertValue height 154 ''cm'' ''m'') ''m'' ''cm'' - 154\<bar>
          \<le> 1 / 10 ^ 1
   \<and> convertValue_double double height 154 ''cm'' ''m'' = 1.5
   \<and> convertValue_double double height 1.5 ''m'' ''cm'' = 150
   \<and> \<not> \<bar>convertValue_double double height
              (convertValue_double double height 154 ''cm'' ''m'') ''m'' ''cm'' - 154\<bar>
          \<le> 1 / 10 ^ 1"
proof -
  have exact: "precision height = Some 1
     \<and> convertValue height 154 ''cm'' ''m'' = 1.5
     \<and> convertValue height 1.5 ''m'' ''cm'' = 150
     \<and> \<not> \<bar>convertValue height (convertValue height 154 ''cm'' ''m'') ''m'' ''cm'' - 154\<bar>
            \<le> 1 / 10 ^ 1"
    by (simp add: convertValue_def height_def precision_or_1_def toFixed_def)
  have "convertValue_double double height
          (convertValue_double double height 154 ''cm'' ''m'') ''m'' ''cm'' = 150"
    by (simp only: cm_m_154 m_cm_15)
  then have "\<not> \<bar>convertValue_double double height
                  (convertValue_double double height 154 ''cm'' ''m'') ''m'' ''cm'' - 154\<bar>
              \<le> 1 / 10 ^ 1"
    by simp
  with exact cm_m_154 m_cm_15 show ?thesis by (intro conjI) simp_all
qed

text \<open>
  Claim C6, as amended: the local measurement value of the component is taken from the
  form engine's value at the first render only, which shows the parsed value. After any
  sequence of renders and edits the local value is the one that the edits alone produce
  from the value parsed at the first render, and a render with any external value shows
  that local value: its magnitude, its unit and the status derived from it. A render hands
  nothing to \<^verbatim>\<open>onChange\<close>, and each edit hands it the new local value.
\<close>

theorem local_state_ignores_renders:
  "run cfg (mount cfg v0) es = run cfg (parsedValue cfg v0) (filter (\<lambda>e. \<not> external e) es)
   \<and> render (Config cfg) None v0 =
       Inr \<lparr>shown = parsedValue cfg v0, unitSelect = (length (units cfg) > 1),
            badge = validationState cfg (parsedValue cfg v0)\<rparr>
   \<and> render (Config cfg) (Some (run cfg (mount cfg v0) es)) v =
       Inr \<lparr>shown = run cfg (parsedValue cfg v0) (filter (\<lambda>e. \<not> external e) es),
            unitSelect = (length (units cfg) > 1),
            badge = validationState cfg
                      (run cfg (parsedValue cfg v0) (filter (\<lambda>e. \<not> external e) es))\<rparr>
   \<and> onChange cfg s e = (if external e then None else Some (step cfg s e))"
proof -
  have local: "run cfg (mount cfg v0) es
                 = run cfg (parsedValue cfg v0) (filter (\<lambda>e. \<not> external e) es)"
    unfolding mount_def by (rule run_filter)
  have first: "render (Config cfg) None v0 =
       Inr \<lparr>shown = parsedValue cfg v0, unitSelect = (length (units cfg) > 1),
            badge = validationState cfg (parsedValue cfg v0)\<rparr>"
    by (simp add: render_def Let_def)
  have later: "render (Config cfg) (Some (run cfg (mount cfg v0) es)) v =
       Inr \<lparr>shown = run cfg (parsedValue cfg v0) (filter (\<lambda>e. \<not> external e) es),
            unitSelect = (length (units cfg) > 1),
            badge = validationState cfg
                      (run cfg (parsedValue cfg v0) (filter (\<lambda>e. \<not> external e) es))\<rparr>"
    unfolding local by (rule render_mounted)
  have hands: "onChange cfg s e = (if external e then None else Some (step cfg s e))"
    by (cases e) simp_all
  from local first later hands show ?thesis by (intro conjI)
qed

text \<open>
  The claim as it stands fails: a weight widget first rendered with the value 70 and then
  rendered with the value 80 still holds, and shows, 70 kg.
\<close>

theorem local_state_counterexample:
  "step weight (mount weight (Number (Num 70))) (Render (Number (Num 80)))
     \<noteq> parsedValue weight (Number (Num 80))
   \<and> render (Config weight) (Some (mount weight (Number (Num 70)))) (Number (Num 80))
     = Inr \<lparr>shown = \<lparr>mvalue = Some (Num 70), unit = ''kg''\<rparr>, unitSelect = True,
            badge = Some Normal\<rparr>"
  by (simp add: mount_def parsedValue_def render_def validationState_def weight_def outside_def)

text \<open>
  Claim C7, as amended: when the unit to convert from has a function as its conversion,
  the function is neither applied nor inverted: the magnitude is taken as the base value
  as it is. The result is that value converted to the target unit and rounded to
  \<^verbatim>\<open>config.precision || 1\<close> digits as in every conversion, so for the base unit as the target
  it is the rounded input.
\<close>

theorem convertValue_from_function_unit:
  assumes "fromUnit \<noteq> toUnit"
    and "find (\<lambda>u. uvalue u = fromUnit) (units cfg) = Some a"
    and "conversion a = Some (NonLinear g)"
    and "find (\<lambda>u. uvalue u = toUnit) (units cfg) = Some b"
    and "precision_or_1 cfg \<le> 100"
  shows "convertValue cfg x fromUnit toUnit =
           toFixed (precision_or_1 cfg)
             (case conversion b of
                None \<Rightarrow> x
              | Some (Linear f) \<Rightarrow> if f \<noteq> 0 then x * f else x
              | Some (NonLinear h) \<Rightarrow> h x)"
  using assms by (simp add: convertValue_def split: option.splits conversion.splits)

theorem convertValue_from_function_unit_witness:
  "convertValue temperature 98.64 ''fahrenheit'' ''celsius'' = toFixed 1 98.64
   \<and> toFixed 1 98.64 = 98.6"
proof -
  have a: "find (\<lambda>u. uvalue u = ''fahrenheit'') (units temperature)
             = Some \<lparr>uvalue = ''fahrenheit'', label = ''F'',
                     conversion = Some (NonLinear (\<lambda>c. (c * 9 / 5) + 32))\<rparr>"
    by (simp add: temperature_def)
  have b: "find (\<lambda>u. uvalue u = ''celsius'') (units temperature)
             = Some \<lparr>uvalue = ''celsius'', label = ''C'', conversion = None\<rparr>"
    by (simp add: temperature_def)
  have "convertValue temperature 98.64 ''fahrenheit'' ''celsius'' = toFixed 1 98.64"
    using convertValue_from_function_unit [OF _ a _ b, of "\<lambda>c. (c * 9 / 5) + 32" "98.64"]
    by (simp add: precision_or_1_def temperature_def)
  moreover have "toFixed 1 98.64 = (98.6::real)" by (simp add: toFixed_def)
  ultimately show ?thesis by simp
qed

text \<open>
  The claim as it stands fails: 98.64 degrees Fahrenheit, converted to Celsius, comes back
  as 98.6 and not unchanged.
\<close>

theorem convertValue_from_function_unit_counterexample:
  "convertValue temperature 98.64 ''fahrenheit'' ''celsius'' \<noteq> 98.64"
  by (simp add: convertValue_def temperature_def precision_or_1_def toFixed_def)

text \<open>
  Claim C8: the classification compares a present magnitude whose unit has a function as
  its conversion, unconverted, with the thresholds of the base unit. The code tests
  \<^verbatim>\<open>!currentValue.value\<close> first, and 0 is falsy: a temperature widget switched to
  Fahrenheit, with 0 typed in, stores the magnitude 0 in Fahrenheit, which lies below the
  critical minimum 35 of the Celsius ranges, and the classification of that value is
  \<^verbatim>\<open>null\<close>.
\<close>

theorem validationState_function_unit_zero:
  "handleValueChange (handleUnitChange temperature (mount temperature Undefined) ''fahrenheit'')
       (Num 0)
     = \<lparr>mvalue = Some (Num 0), unit = ''fahrenheit''\<rparr>
   \<and> validationState temperature \<lparr>mvalue = Some (Num 0), unit = ''fahrenheit''\<rparr> = None
   \<and> ranges temperature = Some \<lparr>normal = Some \<lparr>rmin = 36.1, rmax = 37.2\<rparr>,
                                  critical = Some \<lparr>rmin = 35, rmax = 42\<rparr>\<rparr>
   \<and> outside (Some \<lparr>rmin = 35, rmax = 42\<rparr>) 0"
  by (simp add: handleValueChange_def handleUnitChange_def mount_def parsedValue_def
      validationState_def temperature_def outside_def)

text \<open>
  Claim C9: an unknown measurement type selects the weight configuration and never fails
  the render. The code reads \<^verbatim>\<open>MEASUREMENT_CONFIGS[measurementType]\<close> on an object literal:
  for the type name \<^verbatim>\<open>constructor\<close>, which is not one of the five types, the lookup gives
  the inherited property of \<^verbatim>\<open>Object.prototype\<close>, which is truthy, so the fallback to the
  weight configuration is not taken and the render throws a \<^verbatim>\<open>TypeError\<close>.
\<close>

theorem config_inherited_property:
  "measurementType (Some ''constructor'') None = ''constructor''
   \<and> config ''constructor'' = Inherited ''constructor''
   \<and> render (config ''constructor'') None v = Inl TypeError"
  by (simp add: measurementType_def config_def lookup_config_def MEASUREMENT_CONFIGS_def
      Object_prototype_def render_def)

text \<open>
  Claim C10: converting a magnitude from a unit to the same unit returns the magnitude
  as it is, without rounding, for every magnitude, unit and configuration.
\<close>

theorem convertValue_same_unit: "convertValue cfg x u u = x"
  by (simp add: convertValue_def)

end
